theory Spec2Isabelle
  imports Main
begin

section \<open>Python values, exceptions and dictionaries\<close>

text \<open>
  The exceptions that occur in the modelled functions. \<open>PgError m\<close> is an error raised by
  the database driver (\<open>psycopg2.Error\<close>, a subclass of \<open>Exception\<close>) whose \<open>str\<close> is
  \<open>m\<close>. \<open>UnboundLocalError x\<close> is what Python raises when the local variable \<open>x\<close> of a
  function is read before any assignment to it has been executed.
\<close>

datatype exn = PgError string | UnboundLocalError string

fun str_exn :: "exn \<Rightarrow> string" where
  "str_exn (PgError m) = m"
| "str_exn (UnboundLocalError x) =
     ''cannot access local variable '' @ x @ '' where it is not associated with a value''"

text \<open>
  The values a cell of a result row holds: the scalars, and the list the driver returns
  for a cell of an array column (for \<open>numeric[]\<close>, a list of \<open>Decimal\<close> objects). \<open>'d\<close> is
  the type of \<open>decimal.Decimal\<close> objects and \<open>'f\<close> the type of Python floats; the conversion
  \<open>float(value)\<close> between them is a parameter of the model.
\<close>

datatype ('d, 'f) pyval =
    PNone
  | PBool bool
  | PInt int
  | PStr string
  | PFloat 'f
  | PDecimal 'd
  | PList "('d, 'f) pyval list"



text \<open>
  A Python \<open>dict\<close> keeps its keys in insertion order. Storing under a key that is already
  present replaces the value and leaves the key where it is.
\<close>

type_synonym ('k, 'v) pydict = "('k \<times> 'v) list"

fun dict_set :: "('k, 'v) pydict \<Rightarrow> 'k \<Rightarrow> 'v \<Rightarrow> ('k, 'v) pydict" where
  "dict_set [] k v = [(k, v)]"
| "dict_set ((k', v') # d) k v =
     (if k' = k then (k', v) # d else (k', v') # dict_set d k v)"

definition keys :: "('k, 'v) pydict \<Rightarrow> 'k list" where
  "keys d = map fst d"

definition dict_get :: "('k, 'v) pydict \<Rightarrow> 'k \<Rightarrow> 'v option" where
  "dict_get d k = map_of d k"

text \<open>
  The loop of a dict comprehension \<open>{k: g(x) for k, x in kvs}\<close>, started from the
  dictionary \<open>d\<close>.
\<close>

definition store_all :: "('a \<Rightarrow> 'b) \<Rightarrow> ('k, 'b) pydict \<Rightarrow> ('k \<times> 'a) list \<Rightarrow> ('k, 'b) pydict" where
  "store_all g d kvs = foldl (\<lambda>d (k, x). dict_set d k (g x)) d kvs"

text \<open>\<open>str(n)\<close> for a Python int: decimal digits, with a minus sign when negative.\<close>

definition digit :: "nat \<Rightarrow> char" where
  "digit n = ''0123456789'' ! n"

fun str_nat :: "nat \<Rightarrow> string" where
  "str_nat n = (if n < 10 then [digit n] else str_nat (n div 10) @ [digit (n mod 10)])"

declare str_nat.simps [simp del]

definition str_int :: "int \<Rightarrow> string" where
  "str_int i = (if i < 0 then CHR ''-'' # str_nat (nat (- i)) else str_nat (nat i))"

text \<open>Reading a decimal numeral back, to state that \<open>str\<close> loses nothing.\<close>

definition digit_value :: "char \<Rightarrow> nat" where
  "digit_value c = of_char c - 48"

definition read_nat :: "string \<Rightarrow> nat" where
  "read_nat s = foldl (\<lambda>a c. 10 * a + digit_value c) 0 s"

definition read_int :: "string \<Rightarrow> int" where
  "read_int s = (case s of
                   [] \<Rightarrow> 0
                 | c # cs \<Rightarrow> if c = CHR ''-'' then - int (read_nat cs) else int (read_nat s))"

section \<open>The database driver\<close>

text \<open>
  Module initialisation of \<open>core/db_operations.py\<close> (lines 13-17): each connection
  parameter is \<open>os.getenv(name)\<close>, which is \<open>None\<close> when the variable is absent and never
  raises.
\<close>

record config =
  DB_HOST :: "string option"
  DB_PORT :: "string option"
  DB_NAME :: "string option"
  DB_USER :: "string option"
  DB_PASSWORD :: "string option"

definition getenv :: "(string \<rightharpoonup> string) \<Rightarrow> string \<Rightarrow> string option" where
  "getenv environ name = environ name"

definition load_config :: "(string \<rightharpoonup> string) \<Rightarrow> exn + config" where
  "load_config environ = Inr \<lparr>
     DB_HOST = getenv environ ''POSTGRES_HOST'',
     DB_PORT = getenv environ ''POSTGRES_PORT'',
     DB_NAME = getenv environ ''POSTGRES_DB'',
     DB_USER = getenv environ ''POSTGRES_USER'',
     DB_PASSWORD = getenv environ ''POSTGRES_PASSWORD'' \<rparr>"

text \<open>
  What a cursor holds after \<open>execute\<close>: \<open>description\<close> is \<open>None\<close> or a sequence of column
  entries whose first component is the column name; \<open>rowcount\<close> is the row count the
  store reports; \<open>fetchall\<close> is what the call \<open>cur.fetchall()\<close> does.
\<close>

record 'v cursor =
  description :: "(string \<times> int) list option"
  rowcount :: int
  fetchall :: "exn + 'v list list"

text \<open>
  The store behind the driver. \<open>'s\<close> is the type of database contents, \<open>'q\<close> the type of
  statements. \<open>pg_connect\<close> is \<open>psycopg2.connect\<close> (\<open>Some e\<close>: it raises \<open>e\<close>),
  \<open>pg_execute\<close> runs a statement on the contents seen by the open transaction, and
  \<open>pg_commit\<close> is \<open>conn.commit()\<close>. A connection is represented by the contents its
  transaction sees; closing it without a commit discards them.

  The text a caller hands to \<open>cur.execute\<close> may carry transaction control of its own
  (several statements with a \<open>COMMIT\<close> among them). \<open>pg_persist query s\<close> is the committed
  contents of the store once the text \<open>query\<close> has been run on committed contents \<open>s\<close>,
  whether the call then returns or raises, and before any \<open>conn.commit()\<close> of the caller;
  it is \<open>s\<close> itself for a text without transaction control. Only the gateway executes
  caller-supplied text. The bootstrap sends its own fixed \<open>CREATE TABLE\<close> statements, which
  carry no transaction control, so this component plays no part there.
\<close>

record ('q, 's, 'v) store =
  pg_connect :: "config \<Rightarrow> exn option"
  pg_execute :: "'q \<Rightarrow> 's \<Rightarrow> exn + ('s \<times> 'v cursor)"
  pg_persist :: "'q \<Rightarrow> 's \<Rightarrow> 's"
  pg_commit :: "'s \<Rightarrow> exn option"

datatype 'q event = Connect | Execute 'q | Fetchall | Commit | Cursor_close | Close

text \<open>The world: the committed contents of the store and the driver calls made so far.\<close>

record ('q, 's) world =
  stored :: 's
  trace :: "'q event list"

definition emit :: "'q event \<Rightarrow> ('q, 's) world \<Rightarrow> ('q, 's) world" where
  "emit ev w = w\<lparr>trace := trace w @ [ev]\<rparr>"

text \<open>Python truthiness of \<open>cur.description\<close>: \<open>None\<close> and the empty sequence are false.\<close>

fun truthy :: "'a list option \<Rightarrow> bool" where
  "truthy None = False"
| "truthy (Some xs) = (xs \<noteq> [])"

section \<open>Connection provider (core/db\_operations.py)\<close>

text \<open>
  \<open>get_connection\<close>, lines 19-42: one call of \<open>psycopg2.connect\<close>; a failure is printed,
  logged and re-raised.
\<close>

definition get_connection ::
  "('q, 's, 'v) store \<Rightarrow> config \<Rightarrow> ('q, 's) world \<Rightarrow> (exn + 's) \<times> ('q, 's) world" where
  "get_connection db cfg w =
     (case pg_connect db cfg of
        None \<Rightarrow> (Inr (stored w), emit Connect w)
      | Some e \<Rightarrow> (Inl e, emit Connect w))"

section \<open>Query gateway (core/adk\_config.py, agent.py)\<close>

datatype ('d, 'f) envelope =
    Success_results "(string, ('d, 'f) pyval) pydict list"
  | Success_message string
  | Error_message string

fun status :: "('d, 'f) envelope \<Rightarrow> string" where
  "status (Success_results rs) = ''success''"
| "status (Success_message m) = ''success''"
| "status (Error_message m) = ''error''"

text \<open>\<open>convert_value\<close> and \<open>convert_row\<close>, core/adk\_config.py lines 57-68.\<close>

fun convert_value :: "('d \<Rightarrow> 'f) \<Rightarrow> ('d, 'f) pyval \<Rightarrow> ('d, 'f) pyval" where
  "convert_value float (PDecimal d) = PFloat (float d)"
| "convert_value float v = v"

definition convert_row ::
  "('d \<Rightarrow> 'f) \<Rightarrow> string list \<Rightarrow> ('d, 'f) pyval list \<Rightarrow> (string, ('d, 'f) pyval) pydict" where
  "convert_row float columns row =
     foldl (\<lambda>d (col, val). dict_set d col (convert_value float val)) [] (zip columns row)"

text \<open>
  \<open>convert_row\<close> of agent.py, lines 57-61, with the conversion written inline:
  \<open>float(val) if isinstance(val, Decimal) else val\<close>.
\<close>

definition agent_convert_row ::
  "('d \<Rightarrow> 'f) \<Rightarrow> string list \<Rightarrow> ('d, 'f) pyval list \<Rightarrow> (string, ('d, 'f) pyval) pydict" where
  "agent_convert_row float columns row =
     foldl (\<lambda>d (col, val).
              dict_set d col (case val of PDecimal x \<Rightarrow> PFloat (float x) | _ \<Rightarrow> val))
       [] (zip columns row)"

text \<open>The column names \<open>[desc[0] for desc in cur.description]\<close>.\<close>

definition column_names :: "(string \<times> int) list option \<Rightarrow> string list" where
  "column_names desc = (case desc of None \<Rightarrow> [] | Some ds \<Rightarrow> map fst ds)"

text \<open>
  The \<open>with conn.cursor() as cur:\<close> block, core/adk\_config.py lines 52-75. The cursor is
  closed when the block is left, by a return or by an exception. The result is the
  envelope the block returns, or the exception that leaves it. \<open>conv\<close> is the
  \<open>convert_row\<close> of the file at hand, applied to the column names. Whatever the text of
  the query commits by itself is stored when \<open>execute\<close> has run, on every path; what the
  transaction holds beyond that is stored only by a \<open>conn.commit()\<close> that succeeds.
\<close>

definition cursor_block ::
  "(string list \<Rightarrow> ('d, 'f) pyval list \<Rightarrow> (string, ('d, 'f) pyval) pydict) \<Rightarrow>
   (string, 's, ('d, 'f) pyval) store \<Rightarrow> string \<Rightarrow> 's \<Rightarrow> (string, 's) world \<Rightarrow>
   (exn + ('d, 'f) envelope) \<times> (string, 's) world" where
  "cursor_block conv db query conn w =
     (let w1 = emit (Execute query) (w\<lparr>stored := pg_persist db query (stored w)\<rparr>) in
      case pg_execute db query conn of
        Inl e \<Rightarrow> (Inl e, emit Cursor_close w1)
      | Inr (conn', cur) \<Rightarrow>
          if truthy (description cur) then
            (let columns = column_names (description cur);
                 w2 = emit Fetchall w1 in
             case fetchall cur of
               Inl e \<Rightarrow> (Inl e, emit Cursor_close w2)
             | Inr rows \<Rightarrow>
                 (Inr (Success_results (map (conv columns) rows)), emit Cursor_close w2))
          else
            (let w2 = emit Commit w1 in
             case pg_commit db conn' of
               Some e \<Rightarrow> (Inl e, emit Cursor_close w2)
             | None \<Rightarrow>
                 (Inr (Success_message (str_int (rowcount cur) @ '' rows affected.'')),
                  emit Cursor_close (w2\<lparr>stored := conn'\<rparr>))))"

text \<open>
  \<open>run_sql_query\<close>, core/adk\_config.py lines 36-83. \<open>conn\<close> is \<open>None\<close> before the
  \<open>try\<close>; the handler turns every exception of the \<open>try\<close> block into an error envelope;
  the \<open>finally\<close> clause closes the connection when \<open>conn\<close> is set. The result is
  \<open>Inr\<close> of the envelope returned, or \<open>Inl\<close> of an exception that leaves the function.
\<close>

definition run_sql_query ::
  "(string, 's, ('d, 'f) pyval) store \<Rightarrow> config \<Rightarrow> ('d \<Rightarrow> 'f) \<Rightarrow> string \<Rightarrow>
   (string, 's) world \<Rightarrow> (exn + ('d, 'f) envelope) \<times> (string, 's) world" where
  "run_sql_query db cfg float query w =
     (case get_connection db cfg w of
        (Inl e, w1) \<Rightarrow> (Inr (Error_message (str_exn e)), w1)
      | (Inr conn, w1) \<Rightarrow>
          (case cursor_block (convert_row float) db query conn w1 of
             (Inl e, w2) \<Rightarrow> (Inr (Error_message (str_exn e)), emit Close w2)
           | (Inr env, w2) \<Rightarrow> (Inr env, emit Close w2)))"

text \<open>
  \<open>run_sql_query\<close> of agent.py, lines 37-75. Here no assignment to \<open>conn\<close> precedes
  the \<open>try\<close>: when \<open>get_connection()\<close> raises, the handler prepares the error
  envelope, and then the \<open>finally\<close> clause reads the unassigned local \<open>conn\<close> in
  \<open>if conn:\<close>; the exception raised there replaces the pending return. The module
  \<open>db\<close> that agent.py imports \<open>get_connection\<close> from is not in the source tree, so the
  provider is a parameter.
\<close>

definition agent_run_sql_query ::
  "(config \<Rightarrow> (string, 's) world \<Rightarrow> (exn + 's) \<times> (string, 's) world) \<Rightarrow>
   (string, 's, ('d, 'f) pyval) store \<Rightarrow> config \<Rightarrow> ('d \<Rightarrow> 'f) \<Rightarrow> string \<Rightarrow>
   (string, 's) world \<Rightarrow> (exn + ('d, 'f) envelope) \<times> (string, 's) world" where
  "agent_run_sql_query provider db cfg float query w =
     (case provider cfg w of
        (Inl e, w1) \<Rightarrow> (Inl (UnboundLocalError ''conn''), w1)
      | (Inr conn, w1) \<Rightarrow>
          (case cursor_block (agent_convert_row float) db query conn w1 of
             (Inl e, w2) \<Rightarrow> (Inr (Error_message (str_exn e)), emit Close w2)
           | (Inr env, w2) \<Rightarrow> (Inr env, emit Close w2)))"

text \<open>The driver calls a gateway invocation adds to the trace.\<close>

definition new_events :: "('q, 's) world \<Rightarrow> ('q, 's) world \<Rightarrow> 'q event list" where
  "new_events w w' = drop (length (trace w)) (trace w')"

section \<open>Schema bootstrap (core/db\_operations.py, create\_user\_table.py)\<close>

text \<open>
  The abstract syntax of the \<open>CREATE TABLE\<close> statements the two scripts send, and the
  store's catalogue of tables.
\<close>

datatype coltype = T_SERIAL | T_INT | T_TEXT | T_NUMERIC

datatype col_constraint =
    PRIMARY_KEY
  | NOT_NULL
  | UNIQUE
  | REFERENCES string string bool

datatype table_item =
    Column string coltype "col_constraint list"
  | UNIQUE_columns "string list"

type_synonym table_def = "table_item list"

datatype ddl = CREATE_TABLE bool string table_def

type_synonym catalogue = "string \<rightharpoonup> table_def"

text \<open>The tables a definition refers to through \<open>REFERENCES\<close>.\<close>

fun constraint_refs :: "col_constraint \<Rightarrow> string list" where
  "constraint_refs (REFERENCES t c cascade) = [t]"
| "constraint_refs k = []"

fun item_refs :: "table_item \<Rightarrow> string list" where
  "item_refs (Column n ty ks) = concat (map constraint_refs ks)"
| "item_refs (UNIQUE_columns cs) = []"

definition table_refs :: "table_def \<Rightarrow> string list" where
  "table_refs td = concat (map item_refs td)"

text \<open>
  What the store does with one \<open>CREATE TABLE [IF NOT EXISTS] name (...)\<close>: when the name is
  taken, the statement is skipped under \<open>IF NOT EXISTS\<close> and fails otherwise; a
  referenced table must exist (the table itself counts); else the table is added. The
  first component of \<open>CREATE_TABLE\<close> is \<open>True\<close> when \<open>IF NOT EXISTS\<close> is written.
\<close>

fun pg_ddl :: "ddl \<Rightarrow> catalogue \<Rightarrow> exn + catalogue" where
  "pg_ddl (CREATE_TABLE if_not_exists name td) cat =
     (if cat name \<noteq> None then
        (if if_not_exists then Inr cat
         else Inl (PgError (''relation '' @ name @ '' already exists'')))
      else if \<exists>t \<in> set (table_refs td). t \<noteq> name \<and> cat t = None then
        Inl (PgError ''referenced relation does not exist'')
      else Inr (cat(name \<mapsto> td)))"

text \<open>One \<open>execute\<close> call may carry several statements; the first failure ends it.\<close>

fun pg_script :: "ddl list \<Rightarrow> catalogue \<Rightarrow> exn + catalogue" where
  "pg_script [] cat = Inr cat"
| "pg_script (st # sts) cat =
     (case pg_ddl st cat of Inl e \<Rightarrow> Inl e | Inr cat' \<Rightarrow> pg_script sts cat')"

text \<open>
  A store that holds a catalogue; connecting and committing behave as the two parameters
  say. A DDL statement yields no column description and the row count \<open>-1\<close>.
\<close>

definition postgres ::
  "(config \<Rightarrow> exn option) \<Rightarrow> (catalogue \<Rightarrow> exn option) \<Rightarrow> (ddl list, catalogue, 'v) store" where
  "postgres connect_outcome commit_outcome = \<lparr>
     pg_connect = connect_outcome,
     pg_execute = (\<lambda>script cat.
        case pg_script script cat of
          Inl e \<Rightarrow> Inl e
        | Inr cat' \<Rightarrow>
            Inr (cat', \<lparr>description = None, rowcount = - 1,
                        fetchall = Inl (PgError ''no results to fetch'')\<rparr>)),
     pg_persist = (\<lambda>script cat. cat),
     pg_commit = commit_outcome \<rparr>"

text \<open>The two statements of \<open>create_tables\<close>, core/db\_operations.py lines 56-71.\<close>

definition employees_table :: table_def where
  "employees_table =
     [Column ''id'' T_SERIAL [PRIMARY_KEY],
      Column ''name'' T_TEXT [NOT_NULL, UNIQUE]]"

definition employee_skills_table :: table_def where
  "employee_skills_table =
     [Column ''id'' T_SERIAL [PRIMARY_KEY],
      Column ''employee_id'' T_INT [REFERENCES ''employees'' ''id'' True],
      Column ''tech'' T_TEXT [NOT_NULL],
      Column ''experience_years'' T_NUMERIC [NOT_NULL],
      UNIQUE_columns [''employee_id'', ''tech'']]"

definition create_employees :: "ddl list" where
  "create_employees = [CREATE_TABLE True ''employees'' employees_table]"

definition create_employee_skills :: "ddl list" where
  "create_employee_skills = [CREATE_TABLE True ''employee_skills'' employee_skills_table]"

text \<open>
  The body of the \<open>try\<close> block of \<open>create_tables\<close> after the connection is there
  (lines 54-73): two \<open>execute\<close> calls and the commit.
\<close>

definition create_tables_block ::
  "(ddl list, 's, 'v) store \<Rightarrow> 's \<Rightarrow> (ddl list, 's) world \<Rightarrow>
   (exn + unit) \<times> (ddl list, 's) world" where
  "create_tables_block db conn w =
     (let w1 = emit (Execute create_employees) w in
      case pg_execute db create_employees conn of
        Inl e \<Rightarrow> (Inl e, w1)
      | Inr (conn1, cur1) \<Rightarrow>
          (let w2 = emit (Execute create_employee_skills) w1 in
           case pg_execute db create_employee_skills conn1 of
             Inl e \<Rightarrow> (Inl e, w2)
           | Inr (conn2, cur2) \<Rightarrow>
               (let w3 = emit Commit w2 in
                case pg_commit db conn2 of
                  Some e \<Rightarrow> (Inl e, w3)
                | None \<Rightarrow> (Inr (), w3\<lparr>stored := conn2\<rparr>))))"

text \<open>
  \<open>create_tables\<close>, core/db\_operations.py lines 44-84. \<open>conn\<close> and \<open>curr\<close> are \<open>None\<close>
  before the \<open>try\<close>. The handler prints and logs the exception and does not re-raise;
  the \<open>finally\<close> clause closes the cursor and the connection that were set. The result is
  \<open>Inr ()\<close> when the function returns, \<open>Inl e\<close> when \<open>e\<close> leaves it.
\<close>

definition create_tables ::
  "(ddl list, 's, 'v) store \<Rightarrow> config \<Rightarrow> (ddl list, 's) world \<Rightarrow>
   (exn + unit) \<times> (ddl list, 's) world" where
  "create_tables db cfg w =
     (case get_connection db cfg w of
        (Inl e, w1) \<Rightarrow> (Inr (), w1)
      | (Inr conn, w1) \<Rightarrow>
          (case create_tables_block db conn w1 of
             (Inl e, w2) \<Rightarrow> (Inr (), emit Close (emit Cursor_close w2))
           | (Inr u, w2) \<Rightarrow> (Inr (), emit Close (emit Cursor_close w2))))"

text \<open>The single two-statement script of create\_user\_table.py, lines 25-36.\<close>

definition user_employees_table :: table_def where
  "user_employees_table =
     [Column ''id'' T_SERIAL [PRIMARY_KEY],
      Column ''name'' T_TEXT [NOT_NULL]]"

definition user_employee_skills_table :: table_def where
  "user_employee_skills_table =
     [Column ''id'' T_SERIAL [PRIMARY_KEY],
      Column ''employee_id'' T_INT [REFERENCES ''employees'' ''id'' True],
      Column ''tech'' T_TEXT [NOT_NULL],
      Column ''experience_years'' T_NUMERIC [NOT_NULL]]"

definition create_user_script :: "ddl list" where
  "create_user_script =
     [CREATE_TABLE True ''employees'' user_employees_table,
      CREATE_TABLE False ''employee_skills'' user_employee_skills_table]"

text \<open>
  \<open>create_user_table\<close>, create\_user\_table.py lines 13-47. It connects with
  \<open>psycopg2.connect\<close> itself. Neither \<open>conn\<close> nor \<open>curr\<close> is assigned before the \<open>try\<close>:
  when the connection fails, the \<open>finally\<close> clause reads the unassigned local \<open>curr\<close>.
\<close>

definition create_user_table ::
  "(ddl list, 's, 'v) store \<Rightarrow> config \<Rightarrow> (ddl list, 's) world \<Rightarrow>
   (exn + unit) \<times> (ddl list, 's) world" where
  "create_user_table db cfg w =
     (let w1 = emit Connect w in
      case pg_connect db cfg of
        Some e \<Rightarrow> (Inl (UnboundLocalError ''curr''), w1)
      | None \<Rightarrow>
          (let conn = stored w1;
               w2 = emit (Execute create_user_script) w1 in
           case pg_execute db create_user_script conn of
             Inl e \<Rightarrow> (Inr (), emit Close (emit Cursor_close w2))
           | Inr (conn1, cur1) \<Rightarrow>
               (let w3 = emit Commit w2 in
                case pg_commit db conn1 of
                  Some e \<Rightarrow> (Inr (), emit Close (emit Cursor_close w3))
                | None \<Rightarrow> (Inr (), emit Close (emit Cursor_close (w3\<lparr>stored := conn1\<rparr>))))))"

text \<open>The catalogue after one bootstrap run on a store whose catalogue is \<open>cat\<close>.\<close>

definition bootstrapped ::
  "(config \<Rightarrow> exn option) \<Rightarrow> (catalogue \<Rightarrow> exn option) \<Rightarrow> config \<Rightarrow> catalogue \<Rightarrow> catalogue" where
  "bootstrapped connect_outcome commit_outcome cfg cat =
     stored (snd (create_tables
       (postgres connect_outcome commit_outcome :: (ddl list, catalogue, unit) store) cfg
       \<lparr>stored = cat, trace = []\<rparr>))"

section \<open>Sample stores\<close>

text \<open>
  A small store for concrete runs. Its contents are the names in \<open>employees\<close>. Decimals
  and floats are written by their literals; the decimals used are exactly representable,
  so the sample conversion keeps the literal.
\<close>

definition example_float :: "string \<Rightarrow> string" where
  "example_float d = d"

definition no_result :: "('d, 'f) pyval cursor" where
  "no_result = \<lparr>description = None, rowcount = 1,
                 fetchall = Inl (PgError ''no results to fetch'')\<rparr>"

definition staff_execute ::
  "string \<Rightarrow> string list \<Rightarrow> exn + (string list \<times> (string, string) pyval cursor)" where
  "staff_execute query names =
     (if query = ''SELECT name FROM employees'' then
        Inr (names, \<lparr>description = Some [(''name'', 25)], rowcount = int (length names),
                     fetchall = Inr (map (\<lambda>n. [PStr n]) names)\<rparr>)
      else if query = ''INSERT INTO employees(name) VALUES ('Asha')'' then
        (if ''Asha'' \<in> set names
         then Inl (PgError ''duplicate key value violates unique constraint'')
         else Inr (names @ [''Asha''], no_result))
      else if query = ''SELECT e.id, s.id FROM employees e JOIN employee_skills s ON s.employee_id = e.id'' then
        Inr (names, \<lparr>description = Some [(''id'', 23), (''id'', 23)], rowcount = 1,
                     fetchall = Inr [[PInt 1, PInt 7]]\<rparr>)
      else if query = ''SELECT tech, experience_years FROM employee_skills'' then
        Inr (names, \<lparr>description = Some [(''tech'', 25), (''experience_years'', 1700)],
                     rowcount = 1, fetchall = Inr [[PStr ''SQL'', PDecimal ''2.5'']]\<rparr>)
      else if query = ''SELECT tech, ARRAY[experience_years] FROM employee_skills'' then
        Inr (names, \<lparr>description = Some [(''tech'', 25), (''array'', 1231)],
                     rowcount = 1,
                     fetchall = Inr [[PStr ''SQL'', PList [PDecimal ''2.5'']]]\<rparr>)
      else if query = ''SELECT FROM employees'' then
        Inr (names, \<lparr>description = Some [], rowcount = int (length names),
                     fetchall = Inr (map (\<lambda>n. []) names)\<rparr>)
      else if query = ''INSERT INTO employees(name) VALUES ('Asha'); COMMIT; SELECT 1/0'' then
        (if ''Asha'' \<in> set names
         then Inl (PgError ''duplicate key value violates unique constraint'')
         else Inl (PgError ''division by zero''))
      else if query = ''INSERT INTO employees(name) VALUES ('Asha'); COMMIT; SELECT name FROM employees'' then
        (if ''Asha'' \<in> set names
         then Inl (PgError ''duplicate key value violates unique constraint'')
         else Inr (names @ [''Asha''],
                   \<lparr>description = Some [(''name'', 25)], rowcount = int (length names) + 1,
                    fetchall = Inr (map (\<lambda>n. [PStr n]) (names @ [''Asha'']))\<rparr>))
      else Inl (PgError ''syntax error''))"

text \<open>
  What the text of a query commits by itself on the sample store: the two texts with a
  \<open>COMMIT\<close> after the insert keep the inserted name; every other text keeps nothing.
\<close>

definition staff_persist :: "string \<Rightarrow> string list \<Rightarrow> string list" where
  "staff_persist query names =
     (if (query = ''INSERT INTO employees(name) VALUES ('Asha'); COMMIT; SELECT 1/0'' \<or>
          query = ''INSERT INTO employees(name) VALUES ('Asha'); COMMIT; SELECT name FROM employees'')
         \<and> ''Asha'' \<notin> set names
      then names @ [''Asha''] else names)"

definition staff :: "(string, string list, (string, string) pyval) store" where
  "staff = \<lparr>
     pg_connect = (\<lambda>cfg. if DB_HOST cfg = None
                         then Some (PgError ''could not connect to server'') else None),
     pg_execute = staff_execute,
     pg_persist = staff_persist,
     pg_commit = (\<lambda>names. None) \<rparr>"

definition example_config :: config where
  "example_config = \<lparr>DB_HOST = Some ''localhost'', DB_PORT = Some ''5432'',
     DB_NAME = Some ''staff'', DB_USER = Some ''app'', DB_PASSWORD = Some ''secret''\<rparr>"

definition absent_config :: config where
  "absent_config = \<lparr>DB_HOST = None, DB_PORT = None, DB_NAME = None, DB_USER = None,
     DB_PASSWORD = None\<rparr>"

definition empty_staff :: "(string, string list) world" where
  "empty_staff = \<lparr>stored = [], trace = []\<rparr>"


definition fresh_catalogue :: "(ddl list, catalogue) world" where
  "fresh_catalogue = \<lparr>stored = Map.empty, trace = []\<rparr>"

definition reachable :: "(ddl list, catalogue, unit) store" where
  "reachable = postgres (\<lambda>cfg. None) (\<lambda>cat. None)"

definition unreachable :: "(ddl list, catalogue, unit) store" where
  "unreachable = postgres (\<lambda>cfg. Some (PgError ''could not connect to server'')) (\<lambda>cat. None)"

text \<open>A store that accepts the connection and rejects every statement.\<close>

definition read_only :: "(ddl list, catalogue, unit) store" where
  "read_only = \<lparr>
     pg_connect = (\<lambda>cfg. None),
     pg_execute = (\<lambda>script cat. Inl (PgError ''permission denied for schema public'')),
     pg_persist = (\<lambda>script cat. cat),
     pg_commit = (\<lambda>cat. None) \<rparr>"

section \<open>Dictionaries: what storing under a key does\<close>

lemma map_of_dict_set: "map_of (dict_set d k v) = (map_of d)(k \<mapsto> v)"
  by (induction d) auto

lemma keys_dict_set:
  "map fst (dict_set d k v) = (if k \<in> set (map fst d) then map fst d else map fst d @ [k])"
  by (induction d) (auto simp: rev_image_eqI)


lemma dict_set_fresh: "k \<notin> set (map fst d) \<Longrightarrow> dict_set d k v = d @ [(k, v)]"
  by (induction d) auto

lemma distinct_keys_dict_set:
  "distinct (map fst d) \<Longrightarrow> distinct (map fst (dict_set d k v))"
  by (simp add: keys_dict_set)

lemma set_keys_dict_set: "fst ` set (dict_set d k v) = insert k (fst ` set d)"
proof -
  have "set (map fst (dict_set d k v)) = insert k (set (map fst d))"
    unfolding keys_dict_set by auto
  then show ?thesis by simp
qed

lemma store_all_simps:
  "store_all g d [] = d"
  "store_all g d ((k, x) # kvs) = store_all g (dict_set d k (g x)) kvs"
  "store_all g d (kvs @ [(k, x)]) = dict_set (store_all g d kvs) k (g x)"
  by (simp_all add: store_all_def)

lemma distinct_keys_store_all:
  "distinct (map fst d) \<Longrightarrow> distinct (map fst (store_all g d kvs))"
  by (induction kvs arbitrary: d) (auto simp: store_all_simps distinct_keys_dict_set)

lemma set_keys_store_all:
  "fst ` set (store_all g d kvs) = fst ` set d \<union> fst ` set kvs"
proof (induction kvs arbitrary: d)
  case Nil
  show ?case by (simp add: store_all_simps)
next
  case (Cons kv kvs)
  obtain k x where kv: "kv = (k, x)" by (cases kv)
  have "fst ` set (store_all g (dict_set d k (g x)) kvs)
          = insert k (fst ` set d) \<union> fst ` set kvs"
    by (simp only: Cons.IH set_keys_dict_set)
  then show ?case by (simp add: kv store_all_simps)
qed


lemma store_all_fresh:
  "distinct (map fst kvs) \<Longrightarrow> set (map fst kvs) \<inter> set (map fst d) = {} \<Longrightarrow>
   store_all g d kvs = d @ map (\<lambda>(k, x). (k, g x)) kvs"
proof (induction kvs arbitrary: d)
  case Nil
  show ?case by (simp add: store_all_simps)
next
  case (Cons kv kvs)
  obtain k x where kv: "kv = (k, x)" by (cases kv)
  from Cons.prems have fresh: "k \<notin> set (map fst d)" by (auto simp: kv)
  have "store_all g (d @ [(k, g x)]) kvs = (d @ [(k, g x)]) @ map (\<lambda>(k, x). (k, g x)) kvs"
    using Cons.prems by (intro Cons.IH) (auto simp: kv)
  then show ?case by (simp add: kv store_all_simps dict_set_fresh [OF fresh])
qed

lemma store_all_last:
  "i < length kvs \<Longrightarrow> \<forall>j < length kvs. i < j \<longrightarrow> fst (kvs ! j) \<noteq> fst (kvs ! i) \<Longrightarrow>
   map_of (store_all g d kvs) (fst (kvs ! i)) = Some (g (snd (kvs ! i)))"
proof (induction kvs rule: rev_induct)
  case Nil
  then show ?case by simp
next
  case (snoc kv kvs)
  obtain k x where kv: "kv = (k, x)" by (cases kv)
  show ?case
  proof (cases "i = length kvs")
    case True
    then show ?thesis by (simp add: kv store_all_simps map_of_dict_set)
  next
    case False
    with snoc.prems have i: "i < length kvs" by simp
    have later: "\<forall>j < length kvs. i < j \<longrightarrow> fst (kvs ! j) \<noteq> fst (kvs ! i)"
    proof (intro allI impI)
      fix j assume j: "j < length kvs" "i < j"
      with snoc.prems(2) have "fst ((kvs @ [kv]) ! j) \<noteq> fst ((kvs @ [kv]) ! i)" by simp
      with i j show "fst (kvs ! j) \<noteq> fst (kvs ! i)" by (simp add: nth_append)
    qed
    from snoc.prems(2) have
      "length kvs < length (kvs @ [kv]) \<longrightarrow> i < length kvs \<longrightarrow>
       fst ((kvs @ [kv]) ! length kvs) \<noteq> fst ((kvs @ [kv]) ! i)"
      by (rule spec)
    with i have "fst ((kvs @ [kv]) ! length kvs) \<noteq> fst ((kvs @ [kv]) ! i)"
      by simp
    with i have "k \<noteq> fst (kvs ! i)" by (simp add: nth_append kv)
    with snoc.IH [OF i later] i show ?thesis
      by (simp add: kv store_all_simps map_of_dict_set nth_append)
  qed
qed

lemma convert_row_store_all:
  "convert_row float columns row = store_all (convert_value float) [] (zip columns row)"
  by (simp add: convert_row_def store_all_def)

lemma inline_conversion:
  "(case val of PDecimal x \<Rightarrow> PFloat (float x) | _ \<Rightarrow> val) = convert_value float val"
  by (cases val) simp_all

lemma agent_convert_row_eq: "agent_convert_row float = convert_row float"
  by (intro ext) (simp add: agent_convert_row_def convert_row_def inline_conversion)



lemma convert_row_distinct_columns:
  "distinct columns \<Longrightarrow>
   convert_row float columns row = zip columns (map (convert_value float) row)"
proof -
  assume d: "distinct columns"
  have "distinct (map fst (zip columns row))"
    by (simp add: d map_fst_zip_take)
  then have "convert_row float columns row
      = [] @ map (\<lambda>(k, x). (k, convert_value float x)) (zip columns row)"
    unfolding convert_row_store_all by (intro store_all_fresh) simp_all
  also have "\<dots> = zip columns (map (convert_value float) row)"
    by (simp add: zip_map2)
  finally show ?thesis .
qed

section \<open>Result rows\<close>

text \<open>
  Claim C7. When a row-returning statement yields two or more columns with the same name,
  the result dictionary has one entry for that name, holding the (converted) value of the
  last such column: the keys of the dictionary are pairwise distinct, they are the set of
  column names, the entry of a name is the value at the last position carrying it, and
  with a repeated name the dictionary has strictly fewer keys than the description has
  columns. The row conversion of agent.py is the same function.
\<close>

theorem convert_row_duplicate_columns:
  assumes "length row = length columns"
  shows "distinct (keys (convert_row float columns row)) \<and>
         set (keys (convert_row float columns row)) = set columns \<and>
         (\<forall>i < length columns.
            (\<forall>j < length columns. i < j \<longrightarrow> columns ! j \<noteq> columns ! i) \<longrightarrow>
            dict_get (convert_row float columns row) (columns ! i)
              = Some (convert_value float (row ! i))) \<and>
         (\<not> distinct columns \<longrightarrow>
            length (keys (convert_row float columns row)) < length columns) \<and>
         agent_convert_row float columns row = convert_row float columns row"
proof (intro conjI)
  let ?d = "convert_row float columns row"
  show dist: "distinct (keys ?d)"
    by (simp add: keys_def convert_row_store_all distinct_keys_store_all)
  show ks: "set (keys ?d) = set columns"
  proof -
    have "set (map fst (zip columns row)) = set columns"
      using assms by (simp only: map_fst_zip)
    then have "fst ` set (zip columns row) = set columns"
      by (simp only: set_map)
    then show ?thesis
      by (simp add: keys_def convert_row_store_all set_keys_store_all)
  qed
  show "\<forall>i < length columns.
          (\<forall>j < length columns. i < j \<longrightarrow> columns ! j \<noteq> columns ! i) \<longrightarrow>
          dict_get ?d (columns ! i) = Some (convert_value float (row ! i))"
  proof (intro allI impI)
    fix i assume i: "i < length columns"
      and last: "\<forall>j < length columns. i < j \<longrightarrow> columns ! j \<noteq> columns ! i"
    let ?kvs = "zip columns row"
    have len: "length ?kvs = length columns" using assms by simp
    have "map_of (store_all (convert_value float) [] ?kvs) (fst (?kvs ! i))
            = Some (convert_value float (snd (?kvs ! i)))"
      using i last assms by (intro store_all_last) simp_all
    then show "dict_get ?d (columns ! i) = Some (convert_value float (row ! i))"
      using i assms by (simp add: dict_get_def convert_row_store_all)
  qed
  show "\<not> distinct columns \<longrightarrow> length (keys ?d) < length columns"
  proof
    assume nd: "\<not> distinct columns"
    have "length (keys ?d) = card (set columns)"
      using dist ks distinct_card [of "keys ?d"] by simp
    moreover have "card (set columns) < length columns"
      using nd card_length [of columns] card_distinct [of columns] by linarith
    ultimately show "length (keys ?d) < length columns" by simp
  qed
  show "agent_convert_row float columns row = ?d"
    by (simp add: agent_convert_row_eq)
qed

theorem convert_row_duplicate_columns_witness:
  "length [PInt 1, PInt 7 :: (string, string) pyval] = length [''id'', ''id''] \<and>
   keys (convert_row example_float [''id'', ''id''] [PInt 1, PInt 7]) = [''id''] \<and>
   dict_get (convert_row example_float [''id'', ''id''] [PInt 1, PInt 7]) ''id''
     = Some (PInt 7) \<and>
   length (keys (convert_row example_float [''id'', ''id''] [PInt 1, PInt 7]))
     < length [''id'', ''id'']"
  using convert_row_duplicate_columns
    [of "[PInt 1, PInt 7 :: (string, string) pyval]" "[''id'', ''id'']" example_float]
  by (simp add: convert_row_def keys_def dict_get_def)

section \<open>The gateway: envelopes, exceptions and the connection\<close>

lemmas gateway_defs = run_sql_query_def agent_run_sql_query_def get_connection_def
  cursor_block_def emit_def new_events_def Let_def

text \<open>
  \<open>run_sql_query\<close> of core/adk\_config.py returns an envelope on every path, and a failure
  of connect, execute, fetch or commit gives the error envelope with the exception's text.
\<close>

lemma run_sql_query_returns:
  "\<exists>env. fst (run_sql_query db cfg float query w) = Inr env \<and>
         (status env = ''success'' \<or> status env = ''error'')"
proof -
  have st: "status env = ''success'' \<or> status env = ''error''" for env :: "('a, 'b) envelope"
    by (cases env) simp_all
  have "\<exists>env. fst (run_sql_query db cfg float query w) = Inr env"
    by (auto simp: gateway_defs split: option.splits sum.splits prod.splits)
  with st show ?thesis by blast
qed

lemma run_sql_query_connect_failure:
  "pg_connect db cfg = Some e \<Longrightarrow>
   fst (run_sql_query db cfg float query w) = Inr (Error_message (str_exn e))"
  by (simp add: gateway_defs)

lemma run_sql_query_execute_failure:
  "pg_connect db cfg = None \<Longrightarrow> pg_execute db query (stored w) = Inl e \<Longrightarrow>
   fst (run_sql_query db cfg float query w) = Inr (Error_message (str_exn e))"
  by (simp add: gateway_defs)

lemma run_sql_query_fetch_failure:
  "pg_connect db cfg = None \<Longrightarrow> pg_execute db query (stored w) = Inr (conn', cur) \<Longrightarrow>
   truthy (description cur) \<Longrightarrow> fetchall cur = Inl e \<Longrightarrow>
   fst (run_sql_query db cfg float query w) = Inr (Error_message (str_exn e))"
  by (simp add: gateway_defs)

lemma run_sql_query_commit_failure:
  "pg_connect db cfg = None \<Longrightarrow> pg_execute db query (stored w) = Inr (conn', cur) \<Longrightarrow>
   \<not> truthy (description cur) \<Longrightarrow> pg_commit db conn' = Some e \<Longrightarrow>
   fst (run_sql_query db cfg float query w) = Inr (Error_message (str_exn e))"
  by (simp add: gateway_defs)

text \<open>
  In agent.py a provider that raises makes the call raise, whatever the provider and the
  query are.
\<close>

lemma agent_run_sql_query_raises:
  "fst (provider cfg w) = Inl e \<Longrightarrow>
   fst (agent_run_sql_query provider db cfg float query w)
     = Inl (UnboundLocalError ''conn'')"
  by (cases "provider cfg w") (simp add: agent_run_sql_query_def)

text \<open>
  Claim C1. Every call of the gateway returns an envelope and never raises. This holds for
  \<open>run_sql_query\<close> of core/adk\_config.py (\<open>run_sql_query_returns\<close> above). It fails for
  \<open>run_sql_query\<close> of agent.py: with the store unreachable, the call does not return the
  error envelope but raises \<open>UnboundLocalError\<close> from its \<open>finally\<close> clause.
\<close>

theorem agent_run_sql_query_connect_failure_raises:
  "fst (agent_run_sql_query (get_connection staff) staff absent_config example_float
          ''SELECT name FROM employees'' empty_staff)
     = Inl (UnboundLocalError ''conn'')"
  by (simp add: gateway_defs staff_def absent_config_def)

text \<open>
  Claim C2. An invocation that acquires a connection closes it exactly once, and the close
  is the last driver call before the return, whatever happens in between (success,
  commit, or an exception of execute, fetch or commit); in both gateway files.
\<close>

theorem connection_closed_exactly_once:
  assumes "pg_connect db cfg = None"
  shows "count_list (new_events w (snd (run_sql_query db cfg float query w))) Close = 1 \<and>
         last (trace (snd (run_sql_query db cfg float query w))) = Close \<and>
         count_list (new_events w
           (snd (agent_run_sql_query (get_connection db) db cfg float query w))) Close = 1 \<and>
         last (trace (snd (agent_run_sql_query (get_connection db) db cfg float query w)))
           = Close"
  using assms
  by (auto simp: gateway_defs split: option.splits sum.splits prod.splits)

theorem connection_closed_exactly_once_witness:
  "pg_connect staff example_config = None \<and>
   count_list (new_events empty_staff (snd (run_sql_query staff example_config example_float
      ''INSERT INTO employees(name) VALUES ('Asha')'' empty_staff))) Close = 1 \<and>
   last (trace (snd (run_sql_query staff example_config example_float
      ''INSERT INTO employees(name) VALUES ('Asha')'' empty_staff))) = Close \<and>
   pg_execute staff ''SELEC'' (stored empty_staff) = Inl (PgError ''syntax error'') \<and>
   count_list (new_events empty_staff (snd (run_sql_query staff example_config example_float
      ''SELEC'' empty_staff))) Close = 1"
  using connection_closed_exactly_once [of staff example_config empty_staff example_float
      "''INSERT INTO employees(name) VALUES ('Asha')''"]
    connection_closed_exactly_once [of staff example_config empty_staff example_float
      "''SELEC''"]
  by (simp add: staff_def staff_execute_def example_config_def)

section \<open>The gateway: result sets and write statements\<close>

lemma cursor_block_rows:
  "pg_execute db query conn = Inr (conn', cur) \<Longrightarrow> truthy (description cur) \<Longrightarrow>
   fetchall cur = Inr rows \<Longrightarrow>
   fst (cursor_block conv db query conn w)
     = Inr (Success_results (map (conv (column_names (description cur))) rows))"
  by (simp add: cursor_block_def Let_def)

lemma run_sql_query_rows:
  "pg_connect db cfg = None \<Longrightarrow> pg_execute db query (stored w) = Inr (conn', cur) \<Longrightarrow>
   truthy (description cur) \<Longrightarrow> fetchall cur = Inr rows \<Longrightarrow>
   fst (run_sql_query db cfg float query w)
     = Inr (Success_results (map (convert_row float (column_names (description cur))) rows))"
  by (simp add: gateway_defs)

text \<open>
  Claim C3 as stated fails where two columns carry one name: the statement's column list
  is \<open>id, id\<close>, and the dictionary of the row has the single key \<open>id\<close>.
\<close>

theorem results_keys_counterexample:
  "pg_execute staff
     ''SELECT e.id, s.id FROM employees e JOIN employee_skills s ON s.employee_id = e.id'' []
     = Inr ([], \<lparr>description = Some [(''id'', 23), (''id'', 23)], rowcount = 1,
                  fetchall = Inr [[PInt 1, PInt 7]]\<rparr>) \<and>
   fst (run_sql_query staff example_config example_float
     ''SELECT e.id, s.id FROM employees e JOIN employee_skills s ON s.employee_id = e.id''
     empty_staff) = Inr (Success_results [[(''id'', PInt 7)]]) \<and>
   keys [(''id'', PInt 7 :: (string, string) pyval)] \<noteq> [''id'', ''id'']"
  by (simp add: gateway_defs staff_def staff_execute_def example_config_def empty_staff_def
      column_names_def convert_row_def keys_def)

text \<open>
  Claim C3, amended. For a statement whose column description the code takes as present
  (\<open>if cur.description\<close>: not \<open>None\<close> and not empty) and whose column names are pairwise
  distinct, over rows as wide as the description: the gateway returns the success
  envelope with one dictionary per fetched row, in the fetched order; the keys of each
  dictionary are the column names in the statement's order, and its values are the
  converted values of that row, in order.
\<close>

theorem results_for_distinct_columns:
  assumes "pg_connect db cfg = None"
    and "pg_execute db query (stored w) = Inr (conn', cur)"
    and "truthy (description cur)"
    and "distinct (column_names (description cur))"
    and "fetchall cur = Inr rows"
    and "\<forall>row \<in> set rows. length row = length (column_names (description cur))"
  shows "\<exists>results.
           fst (run_sql_query db cfg float query w) = Inr (Success_results results) \<and>
           length results = length rows \<and>
           (\<forall>i < length rows.
              keys (results ! i) = column_names (description cur) \<and>
              map snd (results ! i) = map (convert_value float) (rows ! i))"
proof -
  let ?cols = "column_names (description cur)"
  let ?results = "map (convert_row float ?cols) rows"
  have run: "fst (run_sql_query db cfg float query w) = Inr (Success_results ?results)"
    using assms(1,2,3,5) by (rule run_sql_query_rows)
  have each: "keys (?results ! i) = ?cols \<and>
              map snd (?results ! i) = map (convert_value float) (rows ! i)"
    if i: "i < length rows" for i
  proof -
    from i assms(6) have len: "length (rows ! i) = length ?cols" by simp
    have "?results ! i = zip ?cols (map (convert_value float) (rows ! i))"
      using i assms(4) by (simp add: convert_row_distinct_columns)
    with len show ?thesis by (simp add: keys_def)
  qed
  from run each show ?thesis by auto
qed

theorem results_for_distinct_columns_witness:
  "pg_connect staff example_config = None \<and>
   truthy (Some [(''tech'', 25::int), (''experience_years'', 1700)]) \<and>
   distinct [''tech'', ''experience_years''] \<and>
   (\<exists>results.
      fst (run_sql_query staff example_config example_float
             ''SELECT tech, experience_years FROM employee_skills'' empty_staff)
        = Inr (Success_results results) \<and>
      length results = 1 \<and>
      keys (results ! 0) = [''tech'', ''experience_years''] \<and>
      map snd (results ! 0) = [PStr ''SQL'', PFloat ''2.5''])"
  using results_for_distinct_columns [of staff example_config
      "''SELECT tech, experience_years FROM employee_skills''" empty_staff "[]"
      "\<lparr>description = Some [(''tech'', 25), (''experience_years'', 1700)],
        rowcount = 1, fetchall = Inr [[PStr ''SQL'', PDecimal ''2.5'']]\<rparr>"
      "[[PStr ''SQL'', PDecimal ''2.5'']]" example_float]
  by (simp add: staff_def staff_execute_def example_config_def empty_staff_def
      column_names_def example_float_def)

text \<open>
  Claim C4 as stated fails on the text of the message: the code ends it with a full stop.
\<close>

theorem rows_affected_message_counterexample:
  "fst (run_sql_query staff example_config example_float
          ''INSERT INTO employees(name) VALUES ('Asha')'' empty_staff)
     = Inr (Success_message ''1 rows affected.'') \<and>
   fst (run_sql_query staff example_config example_float
          ''INSERT INTO employees(name) VALUES ('Asha')'' empty_staff)
     \<noteq> Inr (Success_message ''1 rows affected'')"
  by (simp add: gateway_defs staff_def staff_execute_def example_config_def empty_staff_def
      no_result_def str_int_def str_nat.simps digit_def)

text \<open>
  Claim C4, amended. For a statement that executes without error and yields no column
  description (\<open>None\<close>; the code treats an empty one alike), the gateway calls commit,
  and when the commit succeeds it returns the success envelope whose message is the
  store-reported row count followed by \<open>rows affected.\<close>, full stop included, and the
  statement's effect is stored.
\<close>

theorem write_commits_and_reports_rowcount:
  assumes "pg_connect db cfg = None"
    and "pg_execute db query (stored w) = Inr (conn', cur)"
    and "\<not> truthy (description cur)"
  shows "Commit \<in> set (new_events w (snd (run_sql_query db cfg float query w))) \<and>
         (pg_commit db conn' = None \<longrightarrow>
            fst (run_sql_query db cfg float query w)
              = Inr (Success_message (str_int (rowcount cur) @ '' rows affected.'')) \<and>
            stored (snd (run_sql_query db cfg float query w)) = conn')"
  using assms by (simp add: gateway_defs split: option.splits)

theorem write_commits_and_reports_rowcount_witness:
  "pg_connect staff example_config = None \<and>
   \<not> truthy (description (no_result :: (string, string) pyval cursor)) \<and>
   pg_commit staff [''Asha''] = None \<and>
   fst (run_sql_query staff example_config example_float
          ''INSERT INTO employees(name) VALUES ('Asha')'' empty_staff)
     = Inr (Success_message ''1 rows affected.'') \<and>
   stored (snd (run_sql_query staff example_config example_float
          ''INSERT INTO employees(name) VALUES ('Asha')'' empty_staff)) = [''Asha'']"
  using write_commits_and_reports_rowcount [of staff example_config
      "''INSERT INTO employees(name) VALUES ('Asha')''" empty_staff "[''Asha'']"
      no_result example_float]
  by (simp add: staff_def staff_execute_def example_config_def empty_staff_def
      no_result_def str_int_def str_nat.simps digit_def)

text \<open>
  The row count in the message is exact: reading the numeral back gives the count.
\<close>

lemma digit_value_digit: "k < 10 \<Longrightarrow> digit_value (digit k) = k"
proof -
  assume "k < 10"
  then have "k \<in> {0, 1, 2, 3, 4, 5, 6, 7, 8, 9}" by auto
  then show ?thesis by (auto simp: digit_def digit_value_def)
qed

lemma read_nat_snoc: "read_nat (s @ [c]) = 10 * read_nat s + digit_value c"
  by (simp add: read_nat_def)

lemma read_nat_str_nat: "read_nat (str_nat n) = n"
proof (induction n rule: str_nat.induct)
  case (1 n)
  show ?case
  proof (cases "n < 10")
    case True
    then show ?thesis
      by (subst str_nat.simps) (simp add: read_nat_def digit_value_digit)
  next
    case False
    with 1 have "read_nat (str_nat (n div 10)) = n div 10" by simp
    with False show ?thesis
      by (subst str_nat.simps) (simp add: read_nat_snoc digit_value_digit)
  qed
qed

lemma str_nat_not_minus: "str_nat n \<noteq> [] \<and> hd (str_nat n) \<noteq> CHR ''-''"
proof (induction n rule: str_nat.induct)
  case (1 n)
  show ?case
  proof (cases "n < 10")
    case True
    then have "n \<in> {0, 1, 2, 3, 4, 5, 6, 7, 8, 9}" by auto
    then show ?thesis
      by (subst (1 2) str_nat.simps) (auto simp: digit_def)
  next
    case False
    with 1 have "str_nat (n div 10) \<noteq> [] \<and> hd (str_nat (n div 10)) \<noteq> CHR ''-''" by simp
    with False show ?thesis
      by (subst (1 2) str_nat.simps) simp
  qed
qed

lemma read_int_str_int: "read_int (str_int i) = i"
proof (cases "i < 0")
  case True
  then show ?thesis by (simp add: read_int_def str_int_def read_nat_str_nat)
next
  case False
  obtain c cs where s: "str_nat (nat i) = c # cs" "c \<noteq> CHR ''-''"
    using str_nat_not_minus [of "nat i"] by (cases "str_nat (nat i)") auto
  have "read_nat (c # cs) = nat i" using read_nat_str_nat [of "nat i"] s by simp
  with False s show ?thesis by (simp add: read_int_def str_int_def)
qed

section \<open>The gateway: value normalisation\<close>




lemma convert_value_Decimal_iff:
  "convert_value float x = (case x of PDecimal d \<Rightarrow> PFloat (float d) | _ \<Rightarrow> x)"
  by (cases x) simp_all





section \<open>The gateway: when the transaction is committed\<close>








section \<open>Schema bootstrap\<close>

lemmas bootstrap_defs = create_tables_def create_tables_block_def create_user_table_def
  get_connection_def emit_def Let_def

lemma employees_step:
  "pg_script create_employees cat
     = Inr (if cat ''employees'' = None then cat(''employees'' \<mapsto> employees_table) else cat)"
  by (simp add: create_employees_def employees_table_def table_refs_def)

lemma employee_skills_step:
  "cat ''employees'' \<noteq> None \<Longrightarrow>
   pg_script create_employee_skills cat
     = Inr (if cat ''employee_skills'' = None
            then cat(''employee_skills'' \<mapsto> employee_skills_table) else cat)"
  by (auto simp: create_employee_skills_def employee_skills_table_def table_refs_def)

lemma bootstrapped_fault_free:
  "bootstrapped (\<lambda>cfg. None) (\<lambda>cat. None) cfg cat =
     (\<lambda>t. if t = ''employees'' \<and> cat t = None then Some employees_table
          else if t = ''employee_skills'' \<and> cat t = None then Some employee_skills_table
          else cat t)"
  by (rule ext)
     (auto simp: bootstrapped_def bootstrap_defs postgres_def employees_step employee_skills_step)

lemma bootstrapped_idempotent:
  "bootstrapped (\<lambda>cfg. None) (\<lambda>cat. None) cfg (bootstrapped (\<lambda>cfg. None) (\<lambda>cat. None) cfg cat)
     = bootstrapped (\<lambda>cfg. None) (\<lambda>cat. None) cfg cat"
  by (rule ext) (auto simp: bootstrapped_fault_free)

lemma bootstrapped_any_number:
  "(bootstrapped (\<lambda>cfg. None) (\<lambda>cat. None) cfg ^^ Suc n) cat
     = bootstrapped (\<lambda>cfg. None) (\<lambda>cat. None) cfg cat"
  by (induction n) (simp_all add: bootstrapped_idempotent)

lemma bootstrapped_keeps:
  "cat t = Some td \<Longrightarrow> bootstrapped connect_outcome commit_outcome cfg cat t = Some td"
  by (auto simp: bootstrapped_def bootstrap_defs postgres_def employees_step
      employee_skills_step split: option.splits sum.splits)

lemma bootstrapped_untouched:
  "cat ''employees'' \<noteq> None \<Longrightarrow> cat ''employee_skills'' \<noteq> None \<Longrightarrow>
   bootstrapped connect_outcome commit_outcome cfg cat = cat"
  by (auto simp: bootstrapped_def bootstrap_defs postgres_def employees_step
      employee_skills_step split: option.splits sum.splits)

text \<open>
  Claim C8. The bootstrap is idempotent and creates the two tables with their
  constraints. \<open>create_tables\<close> of core/db\_operations.py does so (the lemmas
  \<open>bootstrapped_fault_free\<close>, \<open>bootstrapped_any_number\<close>, \<open>bootstrapped_keeps\<close> and
  \<open>bootstrapped_untouched\<close> above). \<open>create_user_table\<close> of create\_user\_table.py does
  not: on a store without the tables it creates \<open>employees\<close> without the uniqueness of
  \<open>name\<close> and \<open>employee_skills\<close> without the uniqueness of (employee, technology), and
  on the store it has just set up, its script fails, since the second statement lacks
  \<open>IF NOT EXISTS\<close>.
\<close>

theorem create_user_table_omits_constraints:
  "stored (snd (create_user_table reachable example_config fresh_catalogue)) ''employees''
     = Some [Column ''id'' T_SERIAL [PRIMARY_KEY], Column ''name'' T_TEXT [NOT_NULL]] \<and>
   stored (snd (create_user_table reachable example_config fresh_catalogue)) ''employee_skills''
     = Some [Column ''id'' T_SERIAL [PRIMARY_KEY],
             Column ''employee_id'' T_INT [REFERENCES ''employees'' ''id'' True],
             Column ''tech'' T_TEXT [NOT_NULL],
             Column ''experience_years'' T_NUMERIC [NOT_NULL]] \<and>
   stored (snd (create_user_table reachable example_config fresh_catalogue)) ''employees''
     \<noteq> Some employees_table \<and>
   stored (snd (create_user_table reachable example_config fresh_catalogue)) ''employee_skills''
     \<noteq> Some employee_skills_table \<and>
   pg_execute reachable create_user_script
       (stored (snd (create_user_table reachable example_config fresh_catalogue)))
     = Inl (PgError ''relation employee_skills already exists'')"
  by (simp add: bootstrap_defs reachable_def postgres_def fresh_catalogue_def
      create_user_script_def user_employees_table_def user_employee_skills_table_def
      employees_table_def employee_skills_table_def table_refs_def)

text \<open>
  Claim C9 as stated fails: with the store unreachable, or with a store that rejects the
  statements, \<open>create_tables\<close> returns normally.
\<close>

theorem create_tables_swallows_counterexample:
  "pg_connect unreachable example_config = Some (PgError ''could not connect to server'') \<and>
   fst (create_tables unreachable example_config fresh_catalogue) = Inr () \<and>
   pg_execute read_only create_employees (stored fresh_catalogue)
     = Inl (PgError ''permission denied for schema public'') \<and>
   fst (create_tables read_only example_config fresh_catalogue) = Inr ()"
  by (simp add: bootstrap_defs unreachable_def read_only_def postgres_def)

text \<open>
  Claim C9, amended. \<open>create_tables\<close> returns normally whatever fails: the handler
  prints and logs the exception and does not re-raise it. A run in which the connection,
  a statement or the commit fails leaves the stored contents unchanged, and a connection
  that was obtained is closed last. \<open>create_user_table\<close>, once connected, likewise
  returns normally and stores nothing unless script and commit succeed.
\<close>

theorem create_tables_returns_normally:
  "fst (create_tables db cfg w) = Inr () \<and>
   (stored (snd (create_tables db cfg w)) \<noteq> stored w \<longrightarrow>
      pg_connect db cfg = None \<and>
      (\<exists>c1 r1 c2 r2.
         pg_execute db create_employees (stored w) = Inr (c1, r1) \<and>
         pg_execute db create_employee_skills c1 = Inr (c2, r2) \<and>
         pg_commit db c2 = None \<and> stored (snd (create_tables db cfg w)) = c2)) \<and>
   (pg_connect db cfg = None \<longrightarrow>
      last (trace (snd (create_tables db cfg w))) = Close \<and>
      fst (create_user_table db cfg w) = Inr () \<and>
      (stored (snd (create_user_table db cfg w)) \<noteq> stored w \<longrightarrow>
         (\<exists>c1 r1. pg_execute db create_user_script (stored w) = Inr (c1, r1) \<and>
            pg_commit db c1 = None)))"
  by (auto simp: bootstrap_defs split: option.splits sum.splits prod.splits)

theorem create_tables_returns_normally_witness:
  "fst (create_tables read_only example_config fresh_catalogue) = Inr () \<and>
   stored (snd (create_tables read_only example_config fresh_catalogue))
     = stored fresh_catalogue \<and>
   pg_connect read_only example_config = None \<and>
   last (trace (snd (create_tables read_only example_config fresh_catalogue))) = Close \<and>
   fst (create_user_table read_only example_config fresh_catalogue) = Inr ()"
  using create_tables_returns_normally [of read_only example_config fresh_catalogue]
  by (simp add: bootstrap_defs read_only_def)

text \<open>
  Claim C10 as stated fails: with every credential absent, initialisation succeeds with
  all five parameters \<open>None\<close>, and the failure appears at the connection attempt.
\<close>

theorem absent_credentials_counterexample:
  "load_config Map.empty = Inr absent_config \<and>
   fst (get_connection staff absent_config empty_staff)
     = Inl (PgError ''could not connect to server'')"
  by (simp add: load_config_def getenv_def absent_config_def get_connection_def staff_def)

text \<open>
  Claim C10, amended. Module initialisation reads the five credentials from the
  environment without any check and never fails; an absent one is \<open>None\<close>. The
  connection provider makes exactly one connection attempt per invocation, changes
  nothing in the store, propagates a connection failure to its caller, and returns the
  connection otherwise.
\<close>

theorem credentials_read_without_check_one_connection_attempt:
  "(\<exists>cfg. load_config environ = Inr cfg \<and>
      DB_HOST cfg = environ ''POSTGRES_HOST'' \<and> DB_PORT cfg = environ ''POSTGRES_PORT'' \<and>
      DB_NAME cfg = environ ''POSTGRES_DB'' \<and> DB_USER cfg = environ ''POSTGRES_USER'' \<and>
      DB_PASSWORD cfg = environ ''POSTGRES_PASSWORD'') \<and>
   new_events w (snd (get_connection db cfg w)) = [Connect] \<and>
   stored (snd (get_connection db cfg w)) = stored w \<and>
   (\<forall>e. pg_connect db cfg = Some e \<longrightarrow> fst (get_connection db cfg w) = Inl e) \<and>
   (pg_connect db cfg = None \<longrightarrow> fst (get_connection db cfg w) = Inr (stored w))"
  by (auto simp: load_config_def getenv_def get_connection_def emit_def new_events_def
      split: option.splits)

theorem credentials_read_without_check_one_connection_attempt_witness:
  "pg_connect staff absent_config = Some (PgError ''could not connect to server'') \<and>
   fst (get_connection staff absent_config empty_staff)
     = Inl (PgError ''could not connect to server'') \<and>
   new_events empty_staff (snd (get_connection staff absent_config empty_staff)) = [Connect] \<and>
   pg_connect staff example_config = None \<and>
   fst (get_connection staff example_config empty_staff) = Inr []"
  using credentials_read_without_check_one_connection_attempt
      [of Map.empty empty_staff staff absent_config]
    credentials_read_without_check_one_connection_attempt
      [of Map.empty empty_staff staff example_config]
  by (simp add: staff_def absent_config_def example_config_def empty_staff_def)

end
